theory Spec2Isabelle
  imports Main
begin

section \<open>Python values used by the routes\<close>

text \<open>
  A Python \<open>str\<close> is modelled as a \<open>string\<close> whose characters are the code points
  below 256. \<open>str.isspace\<close>, \<open>str.strip\<close> and \<open>str.lower\<close> are Python's on that
  range: the whitespace code points are 9-13, 28-31, 32, 133 and 160, and the cased
  letters are A-Z and the Latin-1 capitals 192-222 without the multiplication sign 215.
\<close>

definition isspace :: "char \<Rightarrow> bool" where
  "isspace c = (of_char c \<in> set [9, 10, 11, 12, 13, 28, 29, 30, 31, 32, 133, 160 :: nat])"

definition str_lstrip :: "string \<Rightarrow> string" where
  "str_lstrip s = dropWhile isspace s"

definition str_rstrip :: "string \<Rightarrow> string" where
  "str_rstrip s = rev (dropWhile isspace (rev s))"

definition str_strip :: "string \<Rightarrow> string" where
  "str_strip s = str_rstrip (str_lstrip s)"

definition lower_char :: "char \<Rightarrow> char" where
  "lower_char c =
     (let n = of_char c :: nat
      in if (65 \<le> n \<and> n \<le> 90) \<or> (192 \<le> n \<and> n \<le> 222 \<and> n \<noteq> 215)
         then char_of (n + 32) else c)"

definition str_lower :: "string \<Rightarrow> string" where
  "str_lower s = map lower_char s"

text \<open>The decimal text of an integer, as an f-string formats it.\<close>

definition digit_char :: "nat \<Rightarrow> char" where
  "digit_char n = char_of (48 + n mod 10)"

function str_nat :: "nat \<Rightarrow> string" where
  "str_nat n = (if n < 10 then [digit_char n] else str_nat (n div 10) @ [digit_char n])"
  by pat_completeness auto
termination
  by (relation "measure (\<lambda>n. n)") auto

definition str_int :: "int \<Rightarrow> string" where
  "str_int i = (if i < 0 then CHR ''-'' # str_nat (nat (- i)) else str_nat (nat i))"

text \<open>
  Truthiness of an optional query value: \<open>if name:\<close> is false for \<open>None\<close> and for the
  empty string.
\<close>

definition truthy :: "string option \<Rightarrow> bool" where
  "truthy v = (case v of None \<Rightarrow> False | Some s \<Rightarrow> s \<noteq> [])"

section \<open>HTTP status codes\<close>

text \<open>
  Modelled from the spec: \<open>service.common.status\<close> is not among the sources; the
  constants carry the numbers of their names, which are the codes of the spec's
  interface table.
\<close>

definition HTTP_200_OK :: nat where "HTTP_200_OK = 200"
definition HTTP_201_CREATED :: nat where "HTTP_201_CREATED = 201"
definition HTTP_204_NO_CONTENT :: nat where "HTTP_204_NO_CONTENT = 204"
definition HTTP_400_BAD_REQUEST :: nat where "HTTP_400_BAD_REQUEST = 400"
definition HTTP_404_NOT_FOUND :: nat where "HTTP_404_NOT_FOUND = 404"
definition HTTP_415_UNSUPPORTED_MEDIA_TYPE :: nat where "HTTP_415_UNSUPPORTED_MEDIA_TYPE = 415"
definition HTTP_500_INTERNAL_SERVER_ERROR :: nat where "HTTP_500_INTERNAL_SERVER_ERROR = 500"

section \<open>The Product model\<close>

text \<open>
  Modelled from the spec: \<open>service.models.Category\<close> is not among the sources. The spec
  gives the closed enumeration TOOLS, FOOD, CLOTHS, HOUSEWARES, AUTOMOTIVE.
  \<open>Category_getitem\<close> is \<open>Category[name]\<close>, with \<open>None\<close> for the \<open>KeyError\<close>;
  \<open>Category_name\<close> is the member's \<open>.name\<close>.
\<close>

datatype Category = TOOLS | FOOD | CLOTHS | HOUSEWARES | AUTOMOTIVE

definition Category_getitem :: "string \<Rightarrow> Category option" where
  "Category_getitem n =
     (if n = ''TOOLS'' then Some TOOLS
      else if n = ''FOOD'' then Some FOOD
      else if n = ''CLOTHS'' then Some CLOTHS
      else if n = ''HOUSEWARES'' then Some HOUSEWARES
      else if n = ''AUTOMOTIVE'' then Some AUTOMOTIVE
      else None)"

fun Category_name :: "Category \<Rightarrow> string" where
  "Category_name TOOLS = ''TOOLS''"
| "Category_name FOOD = ''FOOD''"
| "Category_name CLOTHS = ''CLOTHS''"
| "Category_name HOUSEWARES = ''HOUSEWARES''"
| "Category_name AUTOMOTIVE = ''AUTOMOTIVE''"

text \<open>An exact decimal quantity: a coefficient and a power of ten.\<close>

datatype decimal = Decimal int int

text \<open>
  Modelled from the spec: \<open>service.models.Product\<close> is not among the sources. A product
  has the fields of the spec's data model. Every attribute of a Python object may be
  \<open>None\<close>; the id is \<open>None\<close> until storage assigns one.
\<close>

record product =
  product_id :: "int option"
  name :: "string option"
  description :: "string option"
  price :: "decimal option"
  available :: "bool option"
  category :: "Category option"

definition Product :: product where
  "Product = \<lparr>product_id = None, name = None, description = None, price = None,
              available = None, category = None\<rparr>"

text \<open>
  The JSON object of a request body, decoded: each key of the wire representation is
  present with a value or absent. The category arrives as a member name. An \<open>id\<close> key
  of the body plays no part, the id being assigned by storage and immutable.
\<close>

record payload =
  p_name :: "string option"
  p_description :: "string option"
  p_price :: "decimal option"
  p_available :: "bool option"
  p_category :: "string option"

text \<open>
  The JSON object \<open>serialize\<close> returns, with the keys id, name, description, price,
  available and category; the category is the member's name.
\<close>

record representation =
  rep_id :: "int option"
  rep_name :: "string option"
  rep_description :: "string option"
  rep_price :: "decimal option"
  rep_available :: "bool option"
  rep_category :: "string option"

section \<open>Errors and responses\<close>

text \<open>
  \<open>Abort code description\<close> is Flask's \<open>abort(code, description)\<close>;
  \<open>DataValidationError\<close> is the model's exception for a rejected payload.
\<close>

datatype error = Abort nat string | DataValidationError string

datatype body =
    JsonProduct representation
  | JsonList "representation list"
  | JsonEmptyObject
  | JsonStatus nat string
  | StaticFile string

record response =
  status :: nat
  body :: body
  headers :: "(string \<times> string) list"

text \<open>
  Modelled from the spec: the error handlers (\<open>service.common.error_handlers\<close>) are not
  among the sources. The spec's error taxonomy sends a validation error to 400; an abort
  answers with its own code.
\<close>

definition status_code :: "error + response \<Rightarrow> nat" where
  "status_code x =
     (case x of
        Inl (Abort code msg) \<Rightarrow> code
      | Inl (DataValidationError msg) \<Rightarrow> HTTP_400_BAD_REQUEST
      | Inr resp \<Rightarrow> status resp)"

section \<open>Requests\<close>

datatype json_body = NotJson | JsonObject payload

record request =
  scheme :: string
  host :: string
  req_headers :: "(string \<times> string) list"
  args :: "(string \<times> string) list"
  data :: json_body

text \<open>Header names compare without regard to case; the first field of a name counts.\<close>

definition headers_get :: "request \<Rightarrow> string \<Rightarrow> string option" where
  "headers_get r k = map_of (map (\<lambda>(a, b). (str_lower a, b)) (req_headers r)) (str_lower k)"

text \<open>\<open>request.args.get(key)\<close>: the first value of the key, or \<open>None\<close>.\<close>

definition args_get :: "request \<Rightarrow> string \<Rightarrow> string option" where
  "args_get r k = map_of (args r) k"

text \<open>
  \<open>request.get_json()\<close>: a body that does not parse as JSON is answered with 400 by
  the framework.
\<close>

definition get_json :: "request \<Rightarrow> error + payload" where
  "get_json r =
     (case data r of
        NotJson \<Rightarrow> Inl (Abort HTTP_400_BAD_REQUEST ''Failed to decode JSON object'')
      | JsonObject d \<Rightarrow> Inr d)"

text \<open>
  \<open>url_for("get_products", product_id=i, _external=True)\<close>. The route's integer
  converter cannot build a URL from \<open>None\<close>: the build error is a server error.
\<close>

definition url_for_get_products :: "request \<Rightarrow> int option \<Rightarrow> error + string" where
  "url_for_get_products r i =
     (case i of
        None \<Rightarrow> Inl (Abort HTTP_500_INTERNAL_SERVER_ERROR ''Could not build url'')
      | Some n \<Rightarrow> Inr (scheme r @ ''://'' @ host r @ ''/products/'' @ str_int n))"

section \<open>Serialization and storage\<close>

text \<open>
  Modelled from the spec: \<open>Product.serialize\<close> is not among the sources. It converts a
  product to the JSON object with keys id, name, description, price, available and
  category, the category as its member name. The decimal text of the price is left
  abstract: the representation carries the decimal.
\<close>

definition serialize :: "product \<Rightarrow> representation" where
  "serialize p =
     \<lparr>rep_id = product_id p, rep_name = name p, rep_description = description p,
      rep_price = price p, rep_available = available p,
      rep_category = map_option Category_name (category p)\<rparr>"

text \<open>
  Modelled from the spec: \<open>Product.deserialize\<close> is not among the sources. The spec has
  it overwrite the fields the payload supplies and keep the others (a merge), reject an
  unrecognized category name, and reject a product that lacks the required name, each
  with a validation error. The spec names no other required field.
\<close>

definition merge_field :: "'a option \<Rightarrow> 'a option \<Rightarrow> 'a option" where
  "merge_field supplied current = (case supplied of None \<Rightarrow> current | Some v \<Rightarrow> Some v)"

definition deserialize_category :: "product \<Rightarrow> payload \<Rightarrow> error + Category option" where
  "deserialize_category p d =
     (case p_category d of
        None \<Rightarrow> Inr (category p)
      | Some c \<Rightarrow>
          (case Category_getitem c of
             None \<Rightarrow> Inl (DataValidationError (''Invalid attribute: '' @ c))
           | Some e \<Rightarrow> Inr (Some e)))"

definition deserialize :: "product \<Rightarrow> payload \<Rightarrow> error + product" where
  "deserialize p d =
     (case deserialize_category p d of
        Inl e \<Rightarrow> Inl e
      | Inr cat \<Rightarrow>
          (if merge_field (p_name d) (name p) = None
           then Inl (DataValidationError ''Invalid product: missing name'')
           else Inr (p\<lparr>name := merge_field (p_name d) (name p),
                       description := merge_field (p_description d) (description p),
                       price := merge_field (p_price d) (price p),
                       available := merge_field (p_available d) (available p),
                       category := cat\<rparr>)))"

text \<open>
  Modelled from the spec: the persistence of \<open>service.models\<close> is not among the
  sources. The table is the list of its rows in storage order, with the sequence that
  gives the next surrogate key: storage assigns the id on creation and never reuses one.
  \<open>Product_find\<close> is \<open>Product.find\<close>, \<open>Product_create\<close>, \<open>Product_update\<close> and
  \<open>Product_delete\<close> are the methods \<open>create\<close>, \<open>update\<close> and \<open>delete\<close> of a product.
\<close>

record store =
  rows :: "product list"
  next_id :: int

definition init_db :: store where
  "init_db = \<lparr>rows = [], next_id = 1\<rparr>"

definition Product_find :: "store \<Rightarrow> int \<Rightarrow> product option" where
  "Product_find s i = find (\<lambda>p. product_id p = Some i) (rows s)"

definition Product_create :: "product \<Rightarrow> store \<Rightarrow> product \<times> store" where
  "Product_create p s =
     (let p' = p\<lparr>product_id := Some (next_id s)\<rparr>
      in (p', s\<lparr>rows := rows s @ [p'], next_id := next_id s + 1\<rparr>))"

definition Product_update :: "product \<Rightarrow> store \<Rightarrow> store" where
  "Product_update p s =
     s\<lparr>rows := map (\<lambda>q. if product_id q = product_id p then p else q) (rows s)\<rparr>"

definition Product_delete :: "product \<Rightarrow> store \<Rightarrow> store" where
  "Product_delete p s = s\<lparr>rows := filter (\<lambda>q. product_id q \<noteq> product_id p) (rows s)\<rparr>"

section \<open>The routes\<close>

text \<open>
  A handler takes the store and the request and returns what it answers (an error for
  an abort or an exception, a response otherwise) with the store it leaves.
\<close>

definition healthcheck :: "store \<Rightarrow> request \<Rightarrow> (error + response) \<times> store" where
  "healthcheck s r =
     (Inr \<lparr>status = HTTP_200_OK, body = JsonStatus 200 ''OK'', headers = []\<rparr>, s)"

definition index :: "store \<Rightarrow> request \<Rightarrow> (error + response) \<times> store" where
  "index s r = (Inr \<lparr>status = HTTP_200_OK, body = StaticFile ''index.html'', headers = []\<rparr>, s)"

definition check_content_type :: "request \<Rightarrow> string \<Rightarrow> error + unit" where
  "check_content_type r content_type =
     (case headers_get r ''Content-Type'' of
        None \<Rightarrow>
          Inl (Abort HTTP_415_UNSUPPORTED_MEDIA_TYPE (''Content-Type must be '' @ content_type))
      | Some v \<Rightarrow>
          if v = content_type then Inr ()
          else Inl (Abort HTTP_415_UNSUPPORTED_MEDIA_TYPE
                      (''Content-Type must be '' @ content_type)))"

definition create_products :: "store \<Rightarrow> request \<Rightarrow> (error + response) \<times> store" where
  "create_products s r =
     (case check_content_type r ''application/json'' of
        Inl e \<Rightarrow> (Inl e, s)
      | Inr u \<Rightarrow>
          (case get_json r of
             Inl e \<Rightarrow> (Inl e, s)
           | Inr d \<Rightarrow>
               (case deserialize Product d of
                  Inl e \<Rightarrow> (Inl e, s)
                | Inr product \<Rightarrow>
                    (let (product, s') = Product_create product s;
                         message = serialize product
                     in case url_for_get_products r (product_id product) of
                          Inl e \<Rightarrow> (Inl e, s')
                        | Inr location_url \<Rightarrow>
                            (Inr \<lparr>status = HTTP_201_CREATED, body = JsonProduct message,
                                  headers = [(''Location'', location_url)]\<rparr>, s')))))"

text \<open>
  The three filters of \<open>list_products\<close>, in its order. \<open>if name:\<close> and
  \<open>if category_name:\<close> skip an absent parameter and an empty one;
  \<open>if available_param is not None:\<close> skips an absent one only. A comparison of a
  column with a value does not select a row whose column is null.
\<close>

definition filter_by_name :: "string option \<Rightarrow> product list \<Rightarrow> product list" where
  "filter_by_name nm query =
     (if truthy nm then filter (\<lambda>p. name p = nm) query else query)"

definition filter_by_category :: "string option \<Rightarrow> product list \<Rightarrow> error + product list" where
  "filter_by_category category_name query =
     (case category_name of
        None \<Rightarrow> Inr query
      | Some c \<Rightarrow>
          if c = [] then Inr query
          else
            (case Category_getitem c of
               None \<Rightarrow> Inl (Abort HTTP_400_BAD_REQUEST (''Unknown category: '' @ c))
             | Some category_enum \<Rightarrow>
                 Inr (filter (\<lambda>p. category p = Some category_enum) query)))"

definition filter_by_available :: "string option \<Rightarrow> product list \<Rightarrow> error + product list" where
  "filter_by_available available_param query =
     (case available_param of
        None \<Rightarrow> Inr query
      | Some a \<Rightarrow>
          (let val = str_lower (str_strip a)
           in if val \<in> set [''true'', ''1'', ''yes'']
              then Inr (filter (\<lambda>p. available p = Some True) query)
              else if val \<in> set [''false'', ''0'', ''no'']
              then Inr (filter (\<lambda>p. available p = Some False) query)
              else Inl (Abort HTTP_400_BAD_REQUEST (''Invalid available: '' @ a))))"

definition list_products :: "store \<Rightarrow> request \<Rightarrow> (error + response) \<times> store" where
  "list_products s r =
     (let nm = args_get r ''name'';
          category_name = args_get r ''category'';
          available_param = args_get r ''available'';
          query = rows s;
          query = filter_by_name nm query
      in case filter_by_category category_name query of
           Inl e \<Rightarrow> (Inl e, s)
         | Inr query \<Rightarrow>
             (case filter_by_available available_param query of
                Inl e \<Rightarrow> (Inl e, s)
              | Inr query \<Rightarrow>
                  (Inr \<lparr>status = HTTP_200_OK, body = JsonList (map serialize query),
                        headers = []\<rparr>, s)))"

definition not_found :: "int \<Rightarrow> error" where
  "not_found i =
     Abort HTTP_404_NOT_FOUND (''Product with id ['' @ str_int i @ ''] was not found.'')"

definition get_products :: "store \<Rightarrow> int \<Rightarrow> request \<Rightarrow> (error + response) \<times> store" where
  "get_products s i r =
     (case Product_find s i of
        None \<Rightarrow> (Inl (not_found i), s)
      | Some product \<Rightarrow>
          (let message = serialize product
           in case url_for_get_products r (product_id product) of
                Inl e \<Rightarrow> (Inl e, s)
              | Inr location_url \<Rightarrow>
                  (Inr \<lparr>status = HTTP_200_OK, body = JsonProduct message,
                        headers = [(''Location'', location_url)]\<rparr>, s)))"

definition update_products :: "store \<Rightarrow> int \<Rightarrow> request \<Rightarrow> (error + response) \<times> store" where
  "update_products s i r =
     (case check_content_type r ''application/json'' of
        Inl e \<Rightarrow> (Inl e, s)
      | Inr u \<Rightarrow>
          (case Product_find s i of
             None \<Rightarrow> (Inl (not_found i), s)
           | Some product \<Rightarrow>
               (case get_json r of
                  Inl e \<Rightarrow> (Inl e, s)
                | Inr d \<Rightarrow>
                    (case deserialize product d of
                       Inl e \<Rightarrow> (Inl e, s)
                     | Inr product \<Rightarrow>
                         (Inr \<lparr>status = HTTP_200_OK, body = JsonProduct (serialize product),
                               headers = []\<rparr>,
                          Product_update product s)))))"

definition delete_products :: "store \<Rightarrow> int \<Rightarrow> request \<Rightarrow> (error + response) \<times> store" where
  "delete_products s i r =
     (case Product_find s i of
        None \<Rightarrow> (Inl (not_found i), s)
      | Some product \<Rightarrow>
          (Inr \<lparr>status = HTTP_204_NO_CONTENT, body = JsonEmptyObject, headers = []\<rparr>,
           Product_delete product s))"

text \<open>The router, and a sequence of requests served one after the other.\<close>

datatype endpoint =
    Healthcheck | Index | CreateProducts | ListProducts
  | GetProducts int | UpdateProducts int | DeleteProducts int

fun dispatch :: "store \<Rightarrow> endpoint \<times> request \<Rightarrow> (error + response) \<times> store" where
  "dispatch s (Healthcheck, r) = healthcheck s r"
| "dispatch s (Index, r) = index s r"
| "dispatch s (CreateProducts, r) = create_products s r"
| "dispatch s (ListProducts, r) = list_products s r"
| "dispatch s (GetProducts i, r) = get_products s i r"
| "dispatch s (UpdateProducts i, r) = update_products s i r"
| "dispatch s (DeleteProducts i, r) = delete_products s i r"

fun run :: "store \<Rightarrow> (endpoint \<times> request) list \<Rightarrow> store" where
  "run s [] = s"
| "run s (c # cs) = run (snd (dispatch s c)) cs"

section \<open>Notions the properties are stated with\<close>

text \<open>
  The spec's reading of an \<open>available\<close> value, in its own words: a value equal without
  regard to case to true, 1 or yes stands for true, one equal to false, 0 or no stands
  for false, anything else is no value. It is compared below with what
  \<open>filter_by_available\<close> does.
\<close>

definition caseless_eq :: "string \<Rightarrow> string \<Rightarrow> bool" where
  "caseless_eq a b = (str_lower a = str_lower b)"

definition spec_available :: "string \<Rightarrow> bool option" where
  "spec_available a =
     (if \<exists>w \<in> set [''true'', ''1'', ''yes'']. caseless_eq a w then Some True
      else if \<exists>w \<in> set [''false'', ''0'', ''no'']. caseless_eq a w then Some False
      else None)"

text \<open>
  The same request without one of its query parameters, and a result of
  \<open>list_products\<close> restricted to the products of its list that satisfy a predicate.
\<close>

definition without_arg :: "string \<Rightarrow> request \<Rightarrow> request" where
  "without_arg k r = r\<lparr>args := filter (\<lambda>kv. fst kv \<noteq> k) (args r)\<rparr>"

definition keep_products ::
  "(representation \<Rightarrow> bool) \<Rightarrow> (error + response) \<times> store \<Rightarrow> (error + response) \<times> store" where
  "keep_products P x =
     (case x of
        (Inl e, s) \<Rightarrow> (Inl e, s)
      | (Inr resp, s) \<Rightarrow>
          (Inr (resp\<lparr>body := (case body resp of
                                 JsonList reps \<Rightarrow> JsonList (filter P reps)
                               | b \<Rightarrow> b)\<rparr>), s))"

text \<open>
  Every stored key lies below the sequence; the ids a response shows, and the ids shown
  by the responses to a sequence of requests.
\<close>

definition keys_below :: "store \<Rightarrow> bool" where
  "keys_below s =
     list_all (\<lambda>p. case product_id p of None \<Rightarrow> False | Some i \<Rightarrow> i < next_id s) (rows s)"

definition ids_of :: "error + response \<Rightarrow> int list" where
  "ids_of x =
     (case x of
        Inl e \<Rightarrow> []
      | Inr resp \<Rightarrow>
          (case body resp of
             JsonProduct rep \<Rightarrow> (case rep_id rep of None \<Rightarrow> [] | Some i \<Rightarrow> [i])
           | JsonList reps \<Rightarrow>
               concat (map (\<lambda>rep. case rep_id rep of None \<Rightarrow> [] | Some i \<Rightarrow> [i]) reps)
           | JsonEmptyObject \<Rightarrow> []
           | JsonStatus n m \<Rightarrow> []
           | StaticFile f \<Rightarrow> []))"

fun seen_ids :: "store \<Rightarrow> (endpoint \<times> request) list \<Rightarrow> int list" where
  "seen_ids s [] = []"
| "seen_ids s (c # cs) = ids_of (fst (dispatch s c)) @ seen_ids (snd (dispatch s c)) cs"

text \<open>
  Example data: two products created through the service, and requests built from one
  JSON request without query parameters.
\<close>

definition example_request :: request where
  "example_request =
     \<lparr>scheme = ''http'', host = ''localhost'',
      req_headers = [(''Content-Type'', ''application/json'')], args = [], data = NotJson\<rparr>"

definition hammer_payload :: payload where
  "hammer_payload =
     \<lparr>p_name = Some ''Hammer'', p_description = Some ''Claw hammer'',
      p_price = Some (Decimal 1999 (- 2)), p_available = Some True,
      p_category = Some ''TOOLS''\<rparr>"

definition bread_payload :: payload where
  "bread_payload =
     \<lparr>p_name = Some ''Bread'', p_description = None,
      p_price = Some (Decimal 250 (- 2)), p_available = Some False,
      p_category = Some ''FOOD''\<rparr>"

definition hammer :: product where
  "hammer =
     \<lparr>product_id = Some 1, name = Some ''Hammer'', description = Some ''Claw hammer'',
      price = Some (Decimal 1999 (- 2)), available = Some True, category = Some TOOLS\<rparr>"

definition bread :: product where
  "bread =
     \<lparr>product_id = Some 2, name = Some ''Bread'', description = None,
      price = Some (Decimal 250 (- 2)), available = Some False, category = Some FOOD\<rparr>"

definition example_store :: store where
  "example_store = \<lparr>rows = [hammer, bread], next_id = 3\<rparr>"

definition example_calls :: "(endpoint \<times> request) list" where
  "example_calls =
     [(CreateProducts, example_request\<lparr>data := JsonObject hammer_payload\<rparr>),
      (CreateProducts, example_request\<lparr>data := JsonObject bread_payload\<rparr>)]"

definition tools_update :: payload where
  "tools_update =
     \<lparr>p_name = None, p_description = Some ''Updated description'',
      p_price = Some (Decimal 4250 (- 2)), p_available = Some True,
      p_category = Some ''TOOLS''\<rparr>"

section \<open>Strings\<close>

lemma isspace_lower_char: "isspace c \<Longrightarrow> lower_char c = c"
  by (auto simp: isspace_def lower_char_def Let_def)

lemma not_isspace_lower_char: "\<not> isspace (lower_char c) \<Longrightarrow> \<not> isspace c"
  using isspace_lower_char by fastforce

lemma str_strip_id:
  assumes "a \<noteq> []" "\<not> isspace (hd a)" "\<not> isspace (last a)"
  shows "str_strip a = a"
proof -
  have l: "str_lstrip a = a"
    using assms(1,2) by (cases a) (simp_all add: str_lstrip_def)
  have "dropWhile isspace (rev a) = rev a"
    using assms(1,3) by (cases "rev a") (simp_all add: last_rev [symmetric] hd_rev)
  then have "str_rstrip a = a"
    by (simp add: str_rstrip_def)
  with l show ?thesis
    by (simp add: str_strip_def)
qed

lemma str_strip_of_lower:
  assumes "str_lower a = w" "w \<noteq> []" "\<not> isspace (hd w)" "\<not> isspace (last w)"
  shows "str_strip a = a"
proof -
  have ne: "a \<noteq> []"
    using assms(1,2) by (auto simp: str_lower_def)
  have "hd w = lower_char (hd a)" "last w = lower_char (last a)"
    using assms(1) ne by (auto simp: str_lower_def hd_map last_map)
  then have "\<not> isspace (hd a)" "\<not> isspace (last a)"
    using assms(3,4) not_isspace_lower_char by auto
  with ne show ?thesis
    by (rule str_strip_id)
qed

lemma word_facts:
  "str_lower ''true'' = ''true''" "str_lower ''1'' = ''1''" "str_lower ''yes'' = ''yes''"
  "str_lower ''false'' = ''false''" "str_lower ''0'' = ''0''" "str_lower ''no'' = ''no''"
  "\<not> isspace CHR ''t''" "\<not> isspace CHR ''e''" "\<not> isspace CHR ''1''" "\<not> isspace CHR ''y''"
  "\<not> isspace CHR ''s''" "\<not> isspace CHR ''f''" "\<not> isspace CHR ''0''" "\<not> isspace CHR ''n''"
  "\<not> isspace CHR ''o''"
  by code_simp+

lemma caseless_word:
  assumes "caseless_eq a w" "w \<in> set [''true'', ''1'', ''yes'', ''false'', ''0'', ''no'']"
  shows "str_lower (str_strip a) = w"
proof -
  have lw: "str_lower a = w"
    using assms by (auto simp: caseless_eq_def word_facts)
  have "w \<noteq> [] \<and> \<not> isspace (hd w) \<and> \<not> isspace (last w)"
    using assms(2) by (auto simp: word_facts)
  with lw have "str_strip a = a"
    by (simp add: str_strip_of_lower)
  with lw show ?thesis by simp
qed

section \<open>The filters of \<open>list_products\<close>\<close>

lemma filter_by_available_spec:
  assumes "spec_available a = Some b"
  shows "filter_by_available (Some a) q = Inr (filter (\<lambda>p. available p = Some b) q)"
proof (cases b)
  case True
  with assms obtain w where w: "w \<in> set [''true'', ''1'', ''yes'']" "caseless_eq a w"
    by (auto simp: spec_available_def split: if_splits)
  then have "str_lower (str_strip a) = w"
    by (auto intro: caseless_word)
  with w(1) True show ?thesis
    by (auto simp: filter_by_available_def Let_def)
next
  case False
  with assms obtain w where w: "w \<in> set [''false'', ''0'', ''no'']" "caseless_eq a w"
    by (auto simp: spec_available_def split: if_splits)
  then have "str_lower (str_strip a) = w"
    by (auto intro: caseless_word)
  with w(1) False show ?thesis
    by (auto simp: filter_by_available_def Let_def)
qed

lemma map_of_filter_key:
  "map_of (filter (\<lambda>kv. fst kv \<noteq> k) xs) k' = (if k' = k then None else map_of xs k')"
  by (induction xs) auto

lemma args_get_without_arg:
  "args_get (without_arg k r) k' = (if k' = k then None else args_get r k')"
  by (simp add: args_get_def without_arg_def map_of_filter_key)

lemma list_products_eq:
  "list_products s r =
     (case filter_by_category (args_get r ''category'')
             (filter_by_name (args_get r ''name'') (rows s)) of
        Inl e \<Rightarrow> (Inl e, s)
      | Inr q \<Rightarrow>
          (case filter_by_available (args_get r ''available'') q of
             Inl e \<Rightarrow> (Inl e, s)
           | Inr q' \<Rightarrow>
               (Inr \<lparr>status = HTTP_200_OK, body = JsonList (map serialize q'),
                     headers = []\<rparr>, s)))"
  by (simp add: list_products_def Let_def)

lemma Category_getitem_name: "(Category_getitem c = Some e) = (c = Category_name e)"
  by (cases e) (auto simp: Category_getitem_def)

lemma Category_getitem_None: "(Category_getitem c = None) = (\<forall>e. c \<noteq> Category_name e)"
proof -
  have "(Category_getitem c = None) = (\<forall>e. Category_getitem c \<noteq> Some e)"
    by auto
  then show ?thesis
    by (simp add: Category_getitem_name)
qed

lemma Category_name_inject: "(Category_name e = Category_name e') = (e = e')"
  by (cases e; cases e') simp_all

lemma Category_name_nonempty: "Category_name e \<noteq> []"
  by (cases e) simp_all

lemma filter_by_name_valid:
  "nm \<noteq> Some [] \<Longrightarrow>
   filter_by_name nm q = filter (\<lambda>p. \<forall>n. nm = Some n \<longrightarrow> name p = Some n) q"
  by (cases nm) (auto simp: filter_by_name_def truthy_def)

lemma filter_by_category_valid:
  "\<forall>c. cn = Some c \<longrightarrow> Category_getitem c \<noteq> None \<Longrightarrow>
   filter_by_category cn q =
     Inr (filter (\<lambda>p. \<forall>c. cn = Some c \<longrightarrow> category p = Category_getitem c) q)"
  by (cases cn) (auto simp: filter_by_category_def Category_getitem_def)

lemma filter_by_available_valid:
  assumes "\<forall>a. av = Some a \<longrightarrow> spec_available a \<noteq> None"
  shows "filter_by_available av q =
     Inr (filter (\<lambda>p. \<forall>a. av = Some a \<longrightarrow> available p = spec_available a) q)"
proof (cases av)
  case None
  then show ?thesis by (simp add: filter_by_available_def)
next
  case (Some a)
  with assms obtain b where "spec_available a = Some b" by auto
  with Some show ?thesis by (simp add: filter_by_available_spec)
qed

lemma keep_map_serialize:
  "filter P (map serialize q) = map serialize (filter (\<lambda>p. P (serialize p)) q)"
  by (simp add: filter_map comp_def)

lemma filter_by_available_True:
  "str_lower (str_strip a) \<in> set [''true'', ''1'', ''yes''] \<Longrightarrow>
   filter_by_available (Some a) q = Inr (filter (\<lambda>p. available p = Some True) q)"
  by (simp add: filter_by_available_def Let_def)

lemma filter_by_available_False:
  "str_lower (str_strip a) \<in> set [''false'', ''0'', ''no''] \<Longrightarrow>
   filter_by_available (Some a) q = Inr (filter (\<lambda>p. available p = Some False) q)"
  by (auto simp: filter_by_available_def Let_def)

lemma filter_by_available_invalid:
  "str_lower (str_strip a) \<notin> set [''true'', ''1'', ''yes'', ''false'', ''0'', ''no''] \<Longrightarrow>
   filter_by_available (Some a) q = Inl (Abort HTTP_400_BAD_REQUEST (''Invalid available: '' @ a))"
  by (simp add: filter_by_available_def Let_def)

lemma filter_by_category_status:
  "filter_by_category cn q = Inl e \<Longrightarrow> status_code (Inl e) = HTTP_400_BAD_REQUEST"
  by (auto simp: filter_by_category_def status_code_def split: option.splits if_splits)

lemma list_products_keep_available:
  assumes "args_get r ''available'' = Some a"
    and "filter_by_available (Some a) = (\<lambda>q. Inr (filter (\<lambda>p. available p = Some b) q))"
  shows "list_products s r =
     keep_products (\<lambda>rp. rep_available rp = Some b) (list_products s (without_arg ''available'' r))"
  using assms
  by (simp add: list_products_eq args_get_without_arg keep_products_def filter_by_available_def
      keep_map_serialize serialize_def split: sum.splits)

lemma list_products_only_available:
  assumes "args_get r ''available'' = Some a"
    and "filter_by_available (Some a) = (\<lambda>q. Inr (filter (\<lambda>p. available p = Some b) q))"
    and "args_get r ''name'' = None" "args_get r ''category'' = None"
  shows "list_products s r =
     (Inr \<lparr>status = HTTP_200_OK,
           body = JsonList (map serialize (filter (\<lambda>p. available p = Some b) (rows s))),
           headers = []\<rparr>, s)"
  using assms
  by (simp add: list_products_eq filter_by_name_def filter_by_category_def truthy_def)

lemma list_products_available_invalid:
  assumes "args_get r ''available'' = Some a"
    and "str_lower (str_strip a) \<notin> set [''true'', ''1'', ''yes'', ''false'', ''0'', ''no'']"
  shows "status_code (fst (list_products s r)) = HTTP_400_BAD_REQUEST
     \<and> (\<exists>e. fst (list_products s r) = Inl e) \<and> snd (list_products s r) = s"
proof (cases "filter_by_category (args_get r ''category'')
                (filter_by_name (args_get r ''name'') (rows s))")
  case (Inl e)
  then show ?thesis
    by (simp add: list_products_eq filter_by_category_status)
next
  case (Inr q)
  then show ?thesis
    using assms
    by (simp add: list_products_eq filter_by_available_invalid status_code_def)
qed

lemma filter_by_available_Inl:
  "filter_by_available av q = Inl e \<Longrightarrow>
   \<exists>a. e = Abort HTTP_400_BAD_REQUEST (''Invalid available: '' @ a)"
  by (auto simp: filter_by_available_def Let_def split: option.splits if_splits)

lemma list_products_unknown_category:
  assumes "args_get r ''category'' = Some c" "c \<noteq> []"
  shows "(fst (list_products s r) = Inl (Abort HTTP_400_BAD_REQUEST (''Unknown category: '' @ c)))
     = (Category_getitem c = None)"
proof (cases "Category_getitem c")
  case None
  with assms show ?thesis
    by (simp add: list_products_eq filter_by_category_def)
next
  case (Some e)
  with assms show ?thesis
    by (auto simp: list_products_eq filter_by_category_def split: sum.splits
        dest!: filter_by_available_Inl)
qed

lemma list_products_category_status:
  assumes "args_get r ''category'' = Some c" "c \<noteq> []" "args_get r ''available'' = None"
  shows "(status_code (fst (list_products s r)) = HTTP_400_BAD_REQUEST)
     = (\<forall>e. c \<noteq> Category_name e)"
proof (cases "Category_getitem c")
  case None
  with assms show ?thesis
    by (simp add: list_products_eq filter_by_category_def status_code_def
        Category_getitem_None [symmetric])
next
  case (Some e)
  with assms show ?thesis
    by (simp add: list_products_eq filter_by_category_def filter_by_available_def status_code_def
        Category_getitem_None [symmetric] HTTP_200_OK_def HTTP_400_BAD_REQUEST_def)
qed

lemma list_products_keep_category:
  assumes "args_get r ''category'' = Some (Category_name e)"
  shows "list_products s r =
     keep_products (\<lambda>rp. rep_category rp = Some (Category_name e))
       (list_products s (without_arg ''category'' r))"
proof -
  have g: "Category_getitem (Category_name e) = Some e"
    by (simp add: Category_getitem_name)
  have k: "filter (\<lambda>rp. rep_category rp = Some (Category_name e)) (map serialize q)
      = map serialize (filter (\<lambda>p. category p = Some e) q)" for q
    by (auto simp: keep_map_serialize serialize_def Category_name_inject intro!: filter_cong arg_cong [where f = "map serialize"])
  have c: "filter_by_available av (filter P q) =
      (case filter_by_available av q of Inl e \<Rightarrow> Inl e | Inr q' \<Rightarrow> Inr (filter P q'))" for av P q
    by (auto simp: filter_by_available_def Let_def conj_commute split: option.splits intro!: filter_cong)
  show ?thesis
    using assms
    by (simp add: list_products_eq args_get_without_arg keep_products_def filter_by_category_def
        Category_name_nonempty g k c split: sum.splits)
qed

lemma list_products_only_category:
  assumes "args_get r ''category'' = Some (Category_name e)"
    and "args_get r ''name'' = None" "args_get r ''available'' = None"
  shows "list_products s r =
     (Inr \<lparr>status = HTTP_200_OK,
           body = JsonList (map serialize (filter (\<lambda>p. category p = Some e) (rows s))),
           headers = []\<rparr>, s)"
  using assms
  by (simp add: list_products_eq filter_by_name_def filter_by_category_def truthy_def
      filter_by_available_def Category_name_nonempty Category_getitem_name [THEN iffD2])

section \<open>Storage across a sequence of requests\<close>

lemma deserialize_status: "deserialize p d = Inl e \<Longrightarrow> status_code (Inl e) = 400"
  by (auto simp: deserialize_def deserialize_category_def status_code_def HTTP_400_BAD_REQUEST_def
      split: option.splits sum.splits if_splits)

lemma Product_find_Some: "Product_find s i = Some p \<Longrightarrow> product_id p = Some i \<and> p \<in> set (rows s)"
  by (auto simp: Product_find_def find_Some_iff)

lemma Product_find_None: "(Product_find s i = None) = (\<forall>p \<in> set (rows s). product_id p \<noteq> Some i)"
  by (auto simp: Product_find_def find_None_iff)

lemma deserialize_id: "deserialize p d = Inr p' \<Longrightarrow> product_id p' = product_id p"
  by (auto simp: deserialize_def split: sum.splits if_splits)

lemma keys_below_iff:
  "keys_below s = (\<forall>p \<in> set (rows s). \<exists>i. product_id p = Some i \<and> i < next_id s)"
  by (auto simp: keys_below_def list_all_iff split: option.splits)

lemma keys_below_find: "keys_below s \<Longrightarrow> Product_find s i = Some p \<Longrightarrow> i < next_id s"
  by (fastforce simp: keys_below_iff dest: Product_find_Some)

lemma create_products_cases:
  "(\<exists>e. create_products s r = (Inl e, s))
   \<or> (\<exists>p. create_products s r =
         (Inr \<lparr>status = HTTP_201_CREATED,
               body = JsonProduct (serialize (p\<lparr>product_id := Some (next_id s)\<rparr>)),
               headers = [(''Location'', scheme r @ ''://'' @ host r @ ''/products/'' @ str_int (next_id s))]\<rparr>,
          s\<lparr>rows := rows s @ [p\<lparr>product_id := Some (next_id s)\<rparr>], next_id := next_id s + 1\<rparr>))"
  by (auto simp: create_products_def Product_create_def Let_def url_for_get_products_def
      split: sum.splits)

lemma update_products_cases:
  "(\<exists>e. update_products s i r = (Inl e, s))
   \<or> (\<exists>p p' d. Product_find s i = Some p \<and> deserialize p d = Inr p' \<and>
         update_products s i r =
         (Inr \<lparr>status = HTTP_200_OK, body = JsonProduct (serialize p'), headers = []\<rparr>,
          Product_update p' s))"
  by (auto simp: update_products_def split: sum.splits option.splits)

lemma delete_products_cases:
  "(\<exists>e. delete_products s i r = (Inl e, s))
   \<or> (\<exists>p. Product_find s i = Some p \<and> delete_products s i r =
         (Inr \<lparr>status = HTTP_204_NO_CONTENT, body = JsonEmptyObject, headers = []\<rparr>,
          Product_delete p s))"
  by (auto simp: delete_products_def split: option.splits)

lemma filter_by_name_subset: "set (filter_by_name nm q) \<subseteq> set q"
  by (auto simp: filter_by_name_def)

lemma filter_by_category_subset: "filter_by_category cn q = Inr q' \<Longrightarrow> set q' \<subseteq> set q"
  by (auto simp: filter_by_category_def split: option.splits if_splits)

lemma filter_by_available_subset: "filter_by_available av q = Inr q' \<Longrightarrow> set q' \<subseteq> set q"
  by (auto simp: filter_by_available_def Let_def split: option.splits if_splits)

lemma list_products_cases:
  "(\<exists>e. list_products s r = (Inl e, s))
   \<or> (\<exists>q. set q \<subseteq> set (rows s) \<and> list_products s r =
         (Inr \<lparr>status = HTTP_200_OK, body = JsonList (map serialize q), headers = []\<rparr>, s))"
proof (cases "filter_by_category (args_get r ''category'')
                (filter_by_name (args_get r ''name'') (rows s))")
  case (Inl e)
  then show ?thesis by (simp add: list_products_eq)
next
  case c: (Inr q)
  show ?thesis
  proof (cases "filter_by_available (args_get r ''available'') q")
    case (Inl e)
    with c show ?thesis by (simp add: list_products_eq)
  next
    case (Inr q')
    have "set q' \<subseteq> set (rows s)"
      using filter_by_available_subset [OF Inr] filter_by_category_subset [OF c]
        filter_by_name_subset [of "args_get r ''name''" "rows s"]
      by blast
    with c Inr show ?thesis by (auto simp: list_products_eq intro!: exI [of _ q'])
  qed
qed

lemma get_products_cases:
  "(\<exists>e. get_products s i r = (Inl e, s))
   \<or> (\<exists>p l. Product_find s i = Some p \<and> get_products s i r =
         (Inr \<lparr>status = HTTP_200_OK, body = JsonProduct (serialize p), headers = l\<rparr>, s))"
  by (auto simp: get_products_def Let_def split: sum.splits option.splits)

lemma ids_of_JsonList:
  "(i \<in> set (ids_of (Inr \<lparr>status = st, body = JsonList (map serialize q), headers = h\<rparr>)))
     = (\<exists>p \<in> set q. product_id p = Some i)"
  by (induction q) (auto simp: ids_of_def serialize_def split: option.splits)

lemma dispatch_step:
  assumes "keys_below s"
  shows "keys_below (snd (dispatch s c))
    \<and> next_id s \<le> next_id (snd (dispatch s c))
    \<and> (\<forall>i \<in> set (ids_of (fst (dispatch s c))). i < next_id (snd (dispatch s c)))"
proof (cases c)
  case (Pair ep r)
  show ?thesis
  proof (cases ep)
    case Healthcheck
    with Pair assms show ?thesis by (simp add: healthcheck_def ids_of_def)
  next
    case Index
    with Pair assms show ?thesis by (simp add: index_def ids_of_def)
  next
    case CreateProducts
    from create_products_cases [of s r] assms Pair CreateProducts show ?thesis
      by (fastforce simp: ids_of_def keys_below_iff serialize_def)
  next
    case ListProducts
    from list_products_cases [of s r] show ?thesis
    proof (elim disjE exE conjE)
      fix e assume "list_products s r = (Inl e, s)"
      with assms Pair ListProducts show ?thesis by (simp add: ids_of_def)
    next
      fix q assume q: "set q \<subseteq> set (rows s)"
        "list_products s r =
           (Inr \<lparr>status = HTTP_200_OK, body = JsonList (map serialize q), headers = []\<rparr>, s)"
      have "\<forall>i \<in> set (ids_of (Inr \<lparr>status = HTTP_200_OK, body = JsonList (map serialize q),
          headers = []\<rparr>)). i < next_id s"
        using q(1) assms by (fastforce simp: ids_of_JsonList keys_below_iff)
      with q(2) assms Pair ListProducts show ?thesis by simp
    qed
  next
    case (GetProducts i)
    from get_products_cases [of s i r] assms Pair GetProducts show ?thesis
      by (auto simp: ids_of_def serialize_def keys_below_iff dest!: Product_find_Some
          split: option.splits)
  next
    case (UpdateProducts i)
    from update_products_cases [of s i r] assms Pair UpdateProducts show ?thesis
      by (fastforce simp: ids_of_def serialize_def keys_below_iff Product_update_def
          dest!: Product_find_Some deserialize_id split: option.splits)
  next
    case (DeleteProducts i)
    from delete_products_cases [of s i r] assms Pair DeleteProducts show ?thesis
      by (auto simp: ids_of_def keys_below_iff Product_delete_def)
  qed
qed

lemma run_keys_below:
  "keys_below s \<Longrightarrow>
   keys_below (run s cs) \<and> next_id s \<le> next_id (run s cs)
   \<and> (\<forall>i \<in> set (seen_ids s cs). i < next_id (run s cs))"
proof (induction cs arbitrary: s)
  case Nil
  then show ?case by simp
next
  case (Cons c cs)
  from dispatch_step [OF Cons.prems, of c]
  have 1: "keys_below (snd (dispatch s c))"
    and 2: "next_id s \<le> next_id (snd (dispatch s c))"
    and 3: "\<forall>i \<in> set (ids_of (fst (dispatch s c))). i < next_id (snd (dispatch s c))"
    by auto
  from Cons.IH [OF 1] 2 3 show ?case
    by fastforce
qed

lemma keys_below_init: "keys_below init_db"
  by (simp add: keys_below_def init_db_def)

lemma gone_step:
  assumes "i < next_id s" "Product_find s i = None"
  shows "i < next_id (snd (dispatch s c)) \<and> Product_find (snd (dispatch s c)) i = None"
proof (cases c)
  case (Pair ep r)
  show ?thesis
  proof (cases ep)
    case Healthcheck
    with Pair assms show ?thesis by (simp add: healthcheck_def)
  next
    case Index
    with Pair assms show ?thesis by (simp add: index_def)
  next
    case CreateProducts
    from create_products_cases [of s r] assms Pair CreateProducts show ?thesis
      by (auto simp: Product_find_None)
  next
    case ListProducts
    from list_products_cases [of s r] assms Pair ListProducts show ?thesis
      by auto
  next
    case (GetProducts j)
    from get_products_cases [of s j r] assms Pair GetProducts show ?thesis
      by auto
  next
    case (UpdateProducts j)
    from update_products_cases [of s j r] assms Pair UpdateProducts show ?thesis
      by (auto simp: Product_find_None Product_update_def dest!: Product_find_Some deserialize_id)
  next
    case (DeleteProducts j)
    from delete_products_cases [of s j r] assms Pair DeleteProducts show ?thesis
      by (auto simp: Product_find_None Product_delete_def)
  qed
qed

lemma gone_run:
  "i < next_id s \<Longrightarrow> Product_find s i = None \<Longrightarrow>
   i < next_id (run s cs) \<and> Product_find (run s cs) i = None"
proof (induction cs arbitrary: s)
  case Nil
  then show ?case by simp
next
  case (Cons c cs)
  from gone_step [OF Cons.prems, of c] Cons.IH [of "snd (dispatch s c)"] show ?case
    by simp
qed

lemma find_append_None:
  "find P xs = None \<Longrightarrow> find P (xs @ ys) = find P ys"
  by (induction xs) (auto split: if_splits)

lemma status_not_found: "status_code (Inl (not_found i)) = 404"
  by (simp add: status_code_def not_found_def HTTP_404_NOT_FOUND_def)

lemma find_map_replace_same:
  assumes "find (\<lambda>q. product_id q = Some i) xs = Some p" "product_id p' = Some i"
  shows "find (\<lambda>q. product_id q = Some i) (map (\<lambda>q. if product_id q = Some i then p' else q) xs)
     = Some p'"
  using assms by (induction xs) (auto split: if_splits)

lemma find_map_replace_other:
  assumes "j \<noteq> i" "product_id p' = Some i"
  shows "find (\<lambda>q. product_id q = Some j) (map (\<lambda>q. if product_id q = Some i then p' else q) xs)
     = find (\<lambda>q. product_id q = Some j) xs"
  using assms by (induction xs) auto

lemma filter_map_replace_other:
  assumes "product_id p' = Some i"
  shows "filter (\<lambda>q. product_id q \<noteq> Some i) (map (\<lambda>q. if product_id q = Some i then p' else q) xs)
     = filter (\<lambda>q. product_id q \<noteq> Some i) xs"
  using assms by (induction xs) auto

lemma deserialize_fields:
  assumes "deserialize p d = Inr p'"
  shows "product_id p' = product_id p
    \<and> name p' = (case p_name d of None \<Rightarrow> name p | Some v \<Rightarrow> Some v)
    \<and> description p' = (case p_description d of None \<Rightarrow> description p | Some v \<Rightarrow> Some v)
    \<and> price p' = (case p_price d of None \<Rightarrow> price p | Some v \<Rightarrow> Some v)
    \<and> available p' = (case p_available d of None \<Rightarrow> available p | Some v \<Rightarrow> Some v)
    \<and> category p' = (case p_category d of None \<Rightarrow> category p | Some c \<Rightarrow> Category_getitem c)"
  using assms
  by (auto simp: deserialize_def deserialize_category_def merge_field_def
      split: sum.splits if_splits option.splits)

section \<open>The example data\<close>

lemma example_store_run: "run init_db example_calls = example_store"
  by code_simp

lemma example_rows:
  "rows example_store = [hammer, bread]" "next_id example_store = 3"
  by (simp_all add: example_store_def)

lemma example_filters:
  "filter (\<lambda>p. available p = Some True) [hammer, bread] = [hammer]"
  "filter (\<lambda>p. available p = Some False) [hammer, bread] = [bread]"
  "filter (\<lambda>p. category p = Some FOOD) [hammer, bread] = [bread]"
  by (simp_all add: hammer_def bread_def)

section \<open>The properties of the routes\<close>

text \<open>
  C1. For every stored set of products and every GET /products request whose name,
  category and available parameters, where supplied, have valid values (a non-empty
  name, the name of a category member, an available value the spec accepts), the
  returned list is exactly the stored products, in storage order, that satisfy all the
  supplied equality predicates at once; with none of the three parameters it is every
  stored product.
\<close>

theorem list_products_filters_compose:
  assumes "args_get r ''name'' \<noteq> Some []"
    and "\<forall>c. args_get r ''category'' = Some c \<longrightarrow> Category_getitem c \<noteq> None"
    and "\<forall>a. args_get r ''available'' = Some a \<longrightarrow> spec_available a \<noteq> None"
  shows "list_products s r =
     (Inr \<lparr>status = HTTP_200_OK,
           body = JsonList (map serialize (filter
             (\<lambda>p. (\<forall>n. args_get r ''name'' = Some n \<longrightarrow> name p = Some n)
                \<and> (\<forall>c. args_get r ''category'' = Some c \<longrightarrow> category p = Category_getitem c)
                \<and> (\<forall>a. args_get r ''available'' = Some a \<longrightarrow> available p = spec_available a))
             (rows s))),
           headers = []\<rparr>, s)
   \<and> (args_get r ''name'' = None \<and> args_get r ''category'' = None
        \<and> args_get r ''available'' = None \<longrightarrow>
      list_products s r =
        (Inr \<lparr>status = HTTP_200_OK, body = JsonList (map serialize (rows s)),
              headers = []\<rparr>, s))"
proof -
  have "list_products s r =
     (Inr \<lparr>status = HTTP_200_OK,
           body = JsonList (map serialize (filter
             (\<lambda>p. \<forall>a. args_get r ''available'' = Some a \<longrightarrow> available p = spec_available a)
             (filter (\<lambda>p. \<forall>c. args_get r ''category'' = Some c \<longrightarrow> category p = Category_getitem c)
               (filter (\<lambda>p. \<forall>n. args_get r ''name'' = Some n \<longrightarrow> name p = Some n) (rows s))))),
           headers = []\<rparr>, s)"
    by (simp only: list_products_eq filter_by_name_valid [OF assms(1)]
        filter_by_category_valid [OF assms(2)] filter_by_available_valid [OF assms(3)]
        sum.case)
  then show ?thesis
    by (auto intro!: filter_cong arg_cong [where f = "map serialize"])
qed

text \<open>
  At the example store: name Hammer, category TOOLS and available TRUE together select
  the hammer alone, and a request without parameters lists both products.
\<close>

theorem list_products_filters_compose_witness:
  "args_get (example_request\<lparr>args := [(''name'', ''Hammer''), (''category'', ''TOOLS''),
      (''available'', ''TRUE'')]\<rparr>) ''name'' = Some ''Hammer''
   \<and> Category_getitem ''TOOLS'' = Some TOOLS
   \<and> spec_available ''TRUE'' = Some True
   \<and> list_products example_store
        (example_request\<lparr>args := [(''name'', ''Hammer''), (''category'', ''TOOLS''),
           (''available'', ''TRUE'')]\<rparr>) =
       (Inr \<lparr>status = 200, body = JsonList [serialize hammer], headers = []\<rparr>, example_store)
   \<and> list_products example_store example_request =
       (Inr \<lparr>status = 200, body = JsonList [serialize hammer, serialize bread], headers = []\<rparr>,
        example_store)"
proof -
  let ?r = "example_request\<lparr>args := [(''name'', ''Hammer''), (''category'', ''TOOLS''),
      (''available'', ''TRUE'')]\<rparr>"
  have a: "args_get ?r ''name'' = Some ''Hammer''" "args_get ?r ''category'' = Some ''TOOLS''"
    "args_get ?r ''available'' = Some ''TRUE''"
    by code_simp+
  have b: "Category_getitem ''TOOLS'' = Some TOOLS" "spec_available ''TRUE'' = Some True"
    by code_simp+
  have n: "args_get example_request ''name'' = None" "args_get example_request ''category'' = None"
    "args_get example_request ''available'' = None"
    by code_simp+
  have h1: "args_get ?r ''name'' \<noteq> Some []"
    by (simp add: a)
  have h2: "\<forall>c. args_get ?r ''category'' = Some c \<longrightarrow> Category_getitem c \<noteq> None"
    by (auto simp: a b)
  have h3: "\<forall>v. args_get ?r ''available'' = Some v \<longrightarrow> spec_available v \<noteq> None"
    by (auto simp: a b)
  have k1: "args_get example_request ''name'' \<noteq> Some []"
    by (simp add: n)
  have k2: "\<forall>c. args_get example_request ''category'' = Some c \<longrightarrow> Category_getitem c \<noteq> None"
    by (simp add: n)
  have k3: "\<forall>v. args_get example_request ''available'' = Some v \<longrightarrow> spec_available v \<noteq> None"
    by (simp add: n)
  note t = list_products_filters_compose [OF h1 h2 h3, of example_store, THEN conjunct1]
  have f: "filter
             (\<lambda>p. (\<forall>n. args_get ?r ''name'' = Some n \<longrightarrow> name p = Some n)
                \<and> (\<forall>c. args_get ?r ''category'' = Some c \<longrightarrow> category p = Category_getitem c)
                \<and> (\<forall>a. args_get ?r ''available'' = Some a \<longrightarrow> available p = spec_available a))
             (rows example_store) = [hammer]"
    unfolding a by (simp add: b example_store_def hammer_def bread_def)
  have 1: "list_products example_store ?r =
       (Inr \<lparr>status = 200, body = JsonList [serialize hammer], headers = []\<rparr>, example_store)"
    using t unfolding f by (simp add: HTTP_200_OK_def)
  have 2: "list_products example_store example_request =
       (Inr \<lparr>status = 200, body = JsonList [serialize hammer, serialize bread], headers = []\<rparr>,
        example_store)"
    using list_products_filters_compose [OF k1 k2 k3, of example_store, THEN conjunct2] n
    by (simp add: example_rows HTTP_200_OK_def)
  from a(1) b 1 2 show ?thesis
    by simp
qed

text \<open>
  C2, as the code has it. For a GET /products request carrying an available parameter,
  take its value with leading and trailing whitespace stripped, in lower case. If that
  is true, 1 or yes, the request answers as the same request without the parameter,
  restricted to exactly the products whose available field is true: all such stored
  products when there is no name or category parameter. If it is false, 0 or no,
  likewise with the field false. Otherwise the request fails with 400, returns no
  products and leaves storage alone. Every value equal without regard to case to one of
  the six words is accepted with the meaning the spec gives it.
\<close>

theorem list_products_available:
  assumes "args_get r ''available'' = Some a"
  shows
    "(str_lower (str_strip a) \<in> set [''true'', ''1'', ''yes''] \<longrightarrow>
        list_products s r =
          keep_products (\<lambda>rp. rep_available rp = Some True)
            (list_products s (without_arg ''available'' r))
        \<and> (args_get r ''name'' = None \<and> args_get r ''category'' = None \<longrightarrow>
           list_products s r =
             (Inr \<lparr>status = HTTP_200_OK,
                   body = JsonList (map serialize (filter (\<lambda>p. available p = Some True) (rows s))),
                   headers = []\<rparr>, s)))
   \<and> (str_lower (str_strip a) \<in> set [''false'', ''0'', ''no''] \<longrightarrow>
        list_products s r =
          keep_products (\<lambda>rp. rep_available rp = Some False)
            (list_products s (without_arg ''available'' r))
        \<and> (args_get r ''name'' = None \<and> args_get r ''category'' = None \<longrightarrow>
           list_products s r =
             (Inr \<lparr>status = HTTP_200_OK,
                   body = JsonList (map serialize (filter (\<lambda>p. available p = Some False) (rows s))),
                   headers = []\<rparr>, s)))
   \<and> (str_lower (str_strip a) \<notin> set [''true'', ''1'', ''yes'', ''false'', ''0'', ''no''] \<longrightarrow>
        status_code (fst (list_products s r)) = HTTP_400_BAD_REQUEST
        \<and> (\<exists>e. fst (list_products s r) = Inl e) \<and> snd (list_products s r) = s)
   \<and> (spec_available a = Some True \<longrightarrow> str_lower (str_strip a) \<in> set [''true'', ''1'', ''yes''])
   \<and> (spec_available a = Some False \<longrightarrow> str_lower (str_strip a) \<in> set [''false'', ''0'', ''no''])"
proof -
  have t: "str_lower (str_strip a) \<in> set [''true'', ''1'', ''yes''] \<Longrightarrow>
      filter_by_available (Some a) = (\<lambda>q. Inr (filter (\<lambda>p. available p = Some True) q))"
    by (rule ext) (rule filter_by_available_True)
  have f: "str_lower (str_strip a) \<in> set [''false'', ''0'', ''no''] \<Longrightarrow>
      filter_by_available (Some a) = (\<lambda>q. Inr (filter (\<lambda>p. available p = Some False) q))"
    by (rule ext) (rule filter_by_available_False)
  have st: "spec_available a = Some True \<Longrightarrow>
      str_lower (str_strip a) \<in> set [''true'', ''1'', ''yes'']"
    by (auto simp: spec_available_def split: if_splits dest!: caseless_word)
  have sf: "spec_available a = Some False \<Longrightarrow>
      str_lower (str_strip a) \<in> set [''false'', ''0'', ''no'']"
    by (auto simp: spec_available_def split: if_splits dest!: caseless_word)
  show ?thesis
    using list_products_keep_available [OF assms t] list_products_only_available [OF assms t]
      list_products_keep_available [OF assms f] list_products_only_available [OF assms f]
      list_products_available_invalid [OF assms] st sf
    by blast
qed

text \<open>
  The value \<open>'' true''\<close>, with a leading space, is not equal without regard to case to
  any of the six words, yet the request succeeds and lists the available products: C2
  as stated, with 400 for every other value, does not hold.
\<close>

theorem list_products_available_counterexample:
  "spec_available '' true'' = None
   \<and> fst (list_products example_store (example_request\<lparr>args := [(''available'', '' true'')]\<rparr>)) =
       Inr \<lparr>status = 200, body = JsonList [serialize hammer], headers = []\<rparr>"
  by code_simp

text \<open>
  At the example store: \<open>'' Yes ''\<close> lists the hammer, \<open>''0''\<close> lists the bread,
  \<open>''maybe''\<close> is answered with 400, and \<open>''YES''\<close> is accepted as the spec reads it.
\<close>

theorem list_products_available_witness:
  "str_lower (str_strip '' Yes '') = ''yes''
   \<and> list_products example_store (example_request\<lparr>args := [(''available'', '' Yes '')]\<rparr>) =
       (Inr \<lparr>status = 200, body = JsonList [serialize hammer], headers = []\<rparr>, example_store)
   \<and> str_lower (str_strip ''0'') = ''0''
   \<and> list_products example_store (example_request\<lparr>args := [(''available'', ''0'')]\<rparr>) =
       (Inr \<lparr>status = 200, body = JsonList [serialize bread], headers = []\<rparr>, example_store)
   \<and> str_lower (str_strip ''maybe'') = ''maybe''
   \<and> status_code (fst (list_products example_store
        (example_request\<lparr>args := [(''available'', ''maybe'')]\<rparr>))) = 400
   \<and> spec_available ''YES'' = Some True
   \<and> str_lower (str_strip ''YES'') \<in> set [''true'', ''1'', ''yes'']"
proof -
  let ?y = "example_request\<lparr>args := [(''available'', '' Yes '')]\<rparr>"
  let ?z = "example_request\<lparr>args := [(''available'', ''0'')]\<rparr>"
  let ?m = "example_request\<lparr>args := [(''available'', ''maybe'')]\<rparr>"
  let ?u = "example_request\<lparr>args := [(''available'', ''YES'')]\<rparr>"
  have y: "args_get ?y ''available'' = Some '' Yes ''" "args_get ?y ''name'' = None"
    "args_get ?y ''category'' = None"
    by code_simp+
  have z: "args_get ?z ''available'' = Some ''0''" "args_get ?z ''name'' = None"
    "args_get ?z ''category'' = None"
    by code_simp+
  have m: "args_get ?m ''available'' = Some ''maybe''"
    by code_simp
  have u: "args_get ?u ''available'' = Some ''YES''"
    by code_simp
  have v: "str_lower (str_strip '' Yes '') = ''yes''" "str_lower (str_strip ''0'') = ''0''"
    "str_lower (str_strip ''maybe'') = ''maybe''" "spec_available ''YES'' = Some True"
    by code_simp+
  have py: "str_lower (str_strip '' Yes '') \<in> set [''true'', ''1'', ''yes'']"
    and pz: "str_lower (str_strip ''0'') \<in> set [''false'', ''0'', ''no'']"
    and pm: "str_lower (str_strip ''maybe'')
      \<notin> set [''true'', ''1'', ''yes'', ''false'', ''0'', ''no'']"
    by (simp_all add: v)
  have qy: "args_get ?y ''name'' = None \<and> args_get ?y ''category'' = None"
    and qz: "args_get ?z ''name'' = None \<and> args_get ?z ''category'' = None"
    by (simp_all add: y z)
  note ty = list_products_available [OF y(1), of example_store]
  note tz = list_products_available [OF z(1), of example_store]
  note tm = list_products_available [OF m, of example_store]
  note tu = list_products_available [OF u, of example_store]
  have 1: "list_products example_store ?y =
       (Inr \<lparr>status = 200, body = JsonList [serialize hammer], headers = []\<rparr>, example_store)"
    using ty [THEN conjunct1, THEN mp, OF py, THEN conjunct2, THEN mp, OF qy]
    unfolding example_rows example_filters by (simp add: HTTP_200_OK_def)
  have 2: "list_products example_store ?z =
       (Inr \<lparr>status = 200, body = JsonList [serialize bread], headers = []\<rparr>, example_store)"
    using tz [THEN conjunct2, THEN conjunct1, THEN mp, OF pz, THEN conjunct2, THEN mp, OF qz]
    unfolding example_rows example_filters by (simp add: HTTP_200_OK_def)
  have 3: "status_code (fst (list_products example_store ?m)) = 400"
    using tm [THEN conjunct2, THEN conjunct2, THEN conjunct1, THEN mp, OF pm, THEN conjunct1]
    by (simp add: HTTP_400_BAD_REQUEST_def)
  note 4 = tu [THEN conjunct2, THEN conjunct2, THEN conjunct2, THEN conjunct1, THEN mp, OF v(4)]
  from v 1 2 3 4 show ?thesis
    by simp
qed

text \<open>
  C3, as the code has it. For a GET /products request carrying a category parameter: an
  empty value is ignored, the request answering as without the parameter; a non-empty
  value fails with the 400 error for an unknown category if and only if it is not the
  name of a member of the enumeration (and, with no available parameter, the status is
  400 if and only if so); a member's name makes the request answer as the same request
  without the parameter, restricted to exactly the products of that category: all such
  stored products, with status 200, when there is no name or available parameter.
\<close>

theorem list_products_category:
  assumes "args_get r ''category'' = Some c"
  shows
    "(c = [] \<longrightarrow> list_products s r = list_products s (without_arg ''category'' r))
   \<and> (c \<noteq> [] \<longrightarrow>
        ((fst (list_products s r) = Inl (Abort HTTP_400_BAD_REQUEST (''Unknown category: '' @ c)))
           = (\<forall>e. c \<noteq> Category_name e))
        \<and> (args_get r ''available'' = None \<longrightarrow>
             (status_code (fst (list_products s r)) = HTTP_400_BAD_REQUEST)
               = (\<forall>e. c \<noteq> Category_name e)))
   \<and> (\<forall>e. c = Category_name e \<longrightarrow>
        list_products s r =
          keep_products (\<lambda>rp. rep_category rp = Some c)
            (list_products s (without_arg ''category'' r))
        \<and> (args_get r ''name'' = None \<and> args_get r ''available'' = None \<longrightarrow>
             list_products s r =
               (Inr \<lparr>status = HTTP_200_OK,
                     body = JsonList (map serialize (filter (\<lambda>p. category p = Some e) (rows s))),
                     headers = []\<rparr>, s)))"
proof -
  have a: "list_products s r = list_products s (without_arg ''category'' r)" if "c = []"
    using that assms
    by (simp add: list_products_eq args_get_without_arg filter_by_category_def
        cong: sum.case_cong)
  show ?thesis
    using a list_products_unknown_category [OF assms] list_products_category_status [OF assms]
      list_products_keep_category [of r _ s] list_products_only_category [of r _ s] assms
    by (simp add: Category_getitem_None)
qed

text \<open>
  The empty string names no member of the enumeration, yet a request whose category
  parameter is empty succeeds and lists every product: C3 as stated, with 400 for
  every value that is not a member's name, does not hold.
\<close>

theorem list_products_category_counterexample:
  "Category_getitem [] = None
   \<and> fst (list_products example_store (example_request\<lparr>args := [(''category'', [])]\<rparr>)) =
       Inr \<lparr>status = 200, body = JsonList [serialize hammer, serialize bread], headers = []\<rparr>"
  by code_simp

text \<open>
  At the example store: an empty category is ignored, \<open>''InvalidCategory''\<close> is answered
  with the 400 error, and \<open>''FOOD''\<close> lists the bread alone.
\<close>

theorem list_products_category_witness:
  "list_products example_store (example_request\<lparr>args := [(''category'', [])]\<rparr>) =
     list_products example_store (without_arg ''category''
       (example_request\<lparr>args := [(''category'', [])]\<rparr>))
   \<and> Category_getitem ''InvalidCategory'' = None
   \<and> fst (list_products example_store
        (example_request\<lparr>args := [(''category'', ''InvalidCategory'')]\<rparr>)) =
       Inl (Abort 400 ''Unknown category: InvalidCategory'')
   \<and> ''FOOD'' = Category_name FOOD
   \<and> list_products example_store (example_request\<lparr>args := [(''category'', ''FOOD'')]\<rparr>) =
       (Inr \<lparr>status = 200, body = JsonList [serialize bread], headers = []\<rparr>, example_store)"
proof -
  let ?e = "example_request\<lparr>args := [(''category'', [])]\<rparr>"
  let ?i = "example_request\<lparr>args := [(''category'', ''InvalidCategory'')]\<rparr>"
  let ?f = "example_request\<lparr>args := [(''category'', ''FOOD'')]\<rparr>"
  have e: "args_get ?e ''category'' = Some []"
    by code_simp
  have i: "args_get ?i ''category'' = Some ''InvalidCategory''"
    by code_simp
  have f: "args_get ?f ''category'' = Some ''FOOD''" "args_get ?f ''name'' = None"
    "args_get ?f ''available'' = None"
    by code_simp+
  have g: "Category_getitem ''InvalidCategory'' = None"
    by code_simp
  then have n: "\<forall>e. ''InvalidCategory'' \<noteq> Category_name e"
    unfolding Category_getitem_None .
  have ne: "''InvalidCategory'' \<noteq> []"
    by simp
  have em: "([]::string) = []"
    by simp
  have c: "''FOOD'' = Category_name FOOD"
    by simp
  have 1: "list_products example_store ?e = list_products example_store (without_arg ''category'' ?e)"
    using list_products_category [OF e, of example_store, THEN conjunct1, THEN mp, OF em] .
  have 2: "fst (list_products example_store ?i) =
       Inl (Abort 400 ''Unknown category: InvalidCategory'')"
    using list_products_category [OF i, of example_store, THEN conjunct2, THEN conjunct1,
        THEN mp, OF ne, THEN conjunct1, THEN iffD2, OF n]
    by (simp add: HTTP_400_BAD_REQUEST_def)
  from list_products_category [OF f(1), of example_store]
  have "list_products example_store ?f =
      (Inr \<lparr>status = HTTP_200_OK,
            body = JsonList (map serialize (filter (\<lambda>p. category p = Some FOOD)
              (rows example_store))), headers = []\<rparr>, example_store)"
    using c f by blast
  then have 3: "list_products example_store ?f =
       (Inr \<lparr>status = 200, body = JsonList [serialize bread], headers = []\<rparr>, example_store)"
    unfolding example_rows example_filters by (simp add: HTTP_200_OK_def)
  from 1 g 2 c 3 show ?thesis
    by simp
qed

text \<open>
  C4. DELETE /products/id: when no product has the id, the answer is 404 and storage is
  unchanged. When one has it, in any store reached from the empty one by requests, the
  answer is 204 with the empty JSON object (no content), the rows of that id are gone
  and the others stay, and after any further sequence of requests GET /products/id
  answers 404.
\<close>

theorem delete_products_permanent:
  "(Product_find s i = None \<longrightarrow>
      delete_products s i r = (Inl (not_found i), s)
      \<and> status_code (fst (delete_products s i r)) = 404)
   \<and> (s = run init_db cs \<and> Product_find s i \<noteq> None \<longrightarrow>
        fst (delete_products s i r) =
          Inr \<lparr>status = HTTP_204_NO_CONTENT, body = JsonEmptyObject, headers = []\<rparr>
        \<and> status_code (fst (delete_products s i r)) = 204
        \<and> rows (snd (delete_products s i r)) = filter (\<lambda>q. product_id q \<noteq> Some i) (rows s)
        \<and> (\<forall>cs' r'.
             fst (get_products (run (snd (delete_products s i r)) cs') i r') = Inl (not_found i)
             \<and> status_code (fst (get_products (run (snd (delete_products s i r)) cs') i r')) = 404))"
proof -
  have a: "delete_products s i r = (Inl (not_found i), s)
      \<and> status_code (fst (delete_products s i r)) = 404"
    if "Product_find s i = None"
    using that by (simp add: delete_products_def status_not_found)
  have b: "fst (delete_products s i r) =
          Inr \<lparr>status = HTTP_204_NO_CONTENT, body = JsonEmptyObject, headers = []\<rparr>
        \<and> status_code (fst (delete_products s i r)) = 204
        \<and> rows (snd (delete_products s i r)) = filter (\<lambda>q. product_id q \<noteq> Some i) (rows s)
        \<and> (\<forall>cs' r'.
             fst (get_products (run (snd (delete_products s i r)) cs') i r') = Inl (not_found i)
             \<and> status_code (fst (get_products (run (snd (delete_products s i r)) cs') i r')) = 404)"
    if s: "s = run init_db cs" and f: "Product_find s i \<noteq> None"
  proof -
    from f obtain p where p: "Product_find s i = Some p" by auto
    then have pid: "product_id p = Some i"
      by (simp add: Product_find_Some)
    have kb: "keys_below s"
      using s run_keys_below [OF keys_below_init] by simp
    have lt: "i < next_id s"
      using kb p by (rule keys_below_find)
    let ?s' = "snd (delete_products s i r)"
    have s': "?s' = Product_delete p s"
      using p by (simp add: delete_products_def)
    have rows': "rows ?s' = filter (\<lambda>q. product_id q \<noteq> Some i) (rows s)"
      by (simp add: s' Product_delete_def pid)
    have gone: "i < next_id ?s'" "Product_find ?s' i = None"
      using lt by (auto simp: s' Product_delete_def Product_find_None pid)
    have later: "fst (get_products (run ?s' cs') i r') = Inl (not_found i)" for cs' r'
      using gone_run [OF gone, of cs'] by (simp add: get_products_def)
    show ?thesis
      using p rows' later
      by (simp add: delete_products_def status_code_def not_found_def HTTP_404_NOT_FOUND_def
          HTTP_204_NO_CONTENT_def)
  qed
  show ?thesis
    using a b by blast
qed

text \<open>
  At the example store, reached by two creations: deleting the absent id 7 answers 404
  and changes nothing; deleting the hammer answers 204, and after two further creations
  reading id 1 still answers 404.
\<close>

theorem delete_products_permanent_witness:
  "Product_find example_store 7 = None
   \<and> delete_products example_store 7 example_request = (Inl (not_found 7), example_store)
   \<and> example_store = run init_db example_calls
   \<and> Product_find example_store 1 = Some hammer
   \<and> fst (delete_products example_store 1 example_request) =
       Inr \<lparr>status = 204, body = JsonEmptyObject, headers = []\<rparr>
   \<and> status_code (fst (get_products
        (run (snd (delete_products example_store 1 example_request)) example_calls)
        1 example_request)) = 404"
proof -
  have a: "Product_find example_store 7 = None"
    and b: "Product_find example_store 1 = Some hammer"
    by code_simp+
  have s: "example_store = run init_db example_calls"
    by (simp add: example_store_run)
  have c: "example_store = run init_db example_calls \<and> Product_find example_store 1 \<noteq> None"
    using s b by simp
  note 1 = delete_products_permanent [of example_store 7 example_request example_calls,
      THEN conjunct1, THEN mp, OF a, THEN conjunct1]
  note t = delete_products_permanent [of example_store 1 example_request example_calls,
      THEN conjunct2, THEN mp, OF c]
  note 2 = t [THEN conjunct1]
  note 3 = t [THEN conjunct2, THEN conjunct2, THEN conjunct2, THEN spec, THEN spec, THEN conjunct2,
      of example_calls example_request]
  from a 1 s b 2 3 show ?thesis
    by (simp add: HTTP_204_NO_CONTENT_def)
qed

text \<open>
  C5. For a valid creation payload, in any store reached from the empty one by requests,
  POST /products answers 201 with a Location header that is the read URL of the new
  id; the id in the representation was shown by no earlier response and belongs to no
  stored product; and GET /products/id on the resulting store answers 200 with the same
  representation.
\<close>

theorem create_products_then_read:
  assumes "headers_get r ''Content-Type'' = Some ''application/json''"
    and "data r = JsonObject d"
    and "deserialize Product d = Inr p"
    and "s = run init_db cs"
  shows "fst (create_products s r) =
      Inr \<lparr>status = HTTP_201_CREATED,
           body = JsonProduct (serialize (p\<lparr>product_id := Some (next_id s)\<rparr>)),
           headers = [(''Location'',
             scheme r @ ''://'' @ host r @ ''/products/'' @ str_int (next_id s))]\<rparr>
    \<and> status_code (fst (create_products s r)) = 201
    \<and> rep_id (serialize (p\<lparr>product_id := Some (next_id s)\<rparr>)) = Some (next_id s)
    \<and> next_id s \<notin> set (seen_ids init_db cs)
    \<and> Product_find s (next_id s) = None
    \<and> get_products (snd (create_products s r)) (next_id s) r' =
        (Inr \<lparr>status = HTTP_200_OK,
              body = JsonProduct (serialize (p\<lparr>product_id := Some (next_id s)\<rparr>)),
              headers = [(''Location'',
                scheme r' @ ''://'' @ host r' @ ''/products/'' @ str_int (next_id s))]\<rparr>,
         snd (create_products s r))"
proof -
  have kb: "keys_below s"
    and seen: "\<forall>i \<in> set (seen_ids init_db cs). i < next_id s"
    using assms(4) run_keys_below [OF keys_below_init, of cs] by simp_all
  have fresh: "Product_find s (next_id s) = None"
    using kb by (fastforce simp: Product_find_None keys_below_iff)
  have unseen: "next_id s \<notin> set (seen_ids init_db cs)"
    using seen by auto
  let ?p = "p\<lparr>product_id := Some (next_id s)\<rparr>"
  have c: "create_products s r =
      (Inr \<lparr>status = HTTP_201_CREATED, body = JsonProduct (serialize ?p),
            headers = [(''Location'',
              scheme r @ ''://'' @ host r @ ''/products/'' @ str_int (next_id s))]\<rparr>,
       s\<lparr>rows := rows s @ [?p], next_id := next_id s + 1\<rparr>)"
    using assms(1-3)
    by (simp add: create_products_def check_content_type_def get_json_def Product_create_def
        Let_def url_for_get_products_def)
  have "find (\<lambda>q. product_id q = Some (next_id s)) (rows s) = None"
    using fresh by (simp add: Product_find_def)
  then have f: "Product_find (s\<lparr>rows := rows s @ [?p], next_id := next_id s + 1\<rparr>) (next_id s)
      = Some ?p"
    by (simp add: Product_find_def find_append_None)
  show ?thesis
    using fresh unseen
    by (simp add: c f get_products_def url_for_get_products_def Let_def status_code_def
        HTTP_201_CREATED_def serialize_def)
qed

text \<open>
  At the example store: creating another hammer answers 201 with id 3, which no earlier
  response showed, and reading id 3 returns the same representation.
\<close>

theorem create_products_then_read_witness:
  "deserialize Product hammer_payload = Inr (hammer\<lparr>product_id := None\<rparr>)
   \<and> example_store = run init_db example_calls
   \<and> fst (create_products example_store (example_request\<lparr>data := JsonObject hammer_payload\<rparr>)) =
       Inr \<lparr>status = 201, body = JsonProduct (serialize (hammer\<lparr>product_id := Some 3\<rparr>)),
            headers = [(''Location'', ''http://localhost/products/3'')]\<rparr>
   \<and> 3 \<notin> set (seen_ids init_db example_calls)
   \<and> get_products
        (snd (create_products example_store (example_request\<lparr>data := JsonObject hammer_payload\<rparr>)))
        3 example_request =
       (Inr \<lparr>status = 200, body = JsonProduct (serialize (hammer\<lparr>product_id := Some 3\<rparr>)),
             headers = [(''Location'', ''http://localhost/products/3'')]\<rparr>,
        snd (create_products example_store (example_request\<lparr>data := JsonObject hammer_payload\<rparr>)))"
proof -
  let ?r = "example_request\<lparr>data := JsonObject hammer_payload\<rparr>"
  have h: "headers_get ?r ''Content-Type'' = Some ''application/json''"
    by code_simp
  have d: "data ?r = JsonObject hammer_payload"
    by simp
  have p: "deserialize Product hammer_payload = Inr (hammer\<lparr>product_id := None\<rparr>)"
    by code_simp
  have s: "example_store = run init_db example_calls"
    by (simp add: example_store_run)
  have e: "scheme example_request = ''http''" "host example_request = ''localhost''"
    "str_int 3 = ''3''"
    by code_simp+
  note t = create_products_then_read [OF h d p s, of example_request]
  from p s t show ?thesis
    by (simp add: example_rows e HTTP_201_CREATED_def HTTP_200_OK_def)
qed

text \<open>
  C6. A POST /products request whose Content-Type header is absent or is not
  application/json is answered with 415 and storage is unchanged, whatever the body.
\<close>

theorem create_products_content_type:
  assumes "headers_get r ''Content-Type'' \<noteq> Some ''application/json''"
  shows "fst (create_products s r) =
      Inl (Abort HTTP_415_UNSUPPORTED_MEDIA_TYPE ''Content-Type must be application/json'')
    \<and> status_code (fst (create_products s r)) = 415
    \<and> snd (create_products s r) = s"
  using assms
  by (auto simp: create_products_def check_content_type_def status_code_def
      HTTP_415_UNSUPPORTED_MEDIA_TYPE_def split: option.splits)

text \<open>
  At the example store: a valid payload sent as \<open>plain/text\<close>, and a request without
  headers, are both answered with 415.
\<close>

theorem create_products_content_type_witness:
  "headers_get (example_request\<lparr>req_headers := [(''Content-Type'', ''plain/text'')],
      data := JsonObject hammer_payload\<rparr>) ''Content-Type'' = Some ''plain/text''
   \<and> status_code (fst (create_products example_store
        (example_request\<lparr>req_headers := [(''Content-Type'', ''plain/text'')],
           data := JsonObject hammer_payload\<rparr>))) = 415
   \<and> snd (create_products example_store
        (example_request\<lparr>req_headers := [(''Content-Type'', ''plain/text'')],
           data := JsonObject hammer_payload\<rparr>)) = example_store
   \<and> headers_get (example_request\<lparr>req_headers := []\<rparr>) ''Content-Type'' = None
   \<and> status_code (fst (create_products example_store (example_request\<lparr>req_headers := []\<rparr>)))
       = 415"
proof -
  let ?w = "example_request\<lparr>req_headers := [(''Content-Type'', ''plain/text'')],
      data := JsonObject hammer_payload\<rparr>"
  let ?n = "example_request\<lparr>req_headers := []\<rparr>"
  have w: "headers_get ?w ''Content-Type'' = Some ''plain/text''"
    and n: "headers_get ?n ''Content-Type'' = None"
    by code_simp+
  have hw: "headers_get ?w ''Content-Type'' \<noteq> Some ''application/json''"
    and hn: "headers_get ?n ''Content-Type'' \<noteq> Some ''application/json''"
    by (simp_all add: w n)
  note tw = create_products_content_type [OF hw, of example_store]
  note tn = create_products_content_type [OF hn, of example_store]
  from w n tw [THEN conjunct2] tn [THEN conjunct2, THEN conjunct1] show ?thesis
    by simp
qed

text \<open>
  C7. A POST /products request with the JSON content type whose body has no name (or is
  not JSON at all) fails with 400 and storage is unchanged.
\<close>

theorem create_products_no_name:
  assumes "headers_get r ''Content-Type'' = Some ''application/json''"
    and "\<forall>d. data r = JsonObject d \<longrightarrow> p_name d = None"
  shows "status_code (fst (create_products s r)) = 400
    \<and> (\<exists>e. fst (create_products s r) = Inl e)
    \<and> snd (create_products s r) = s"
proof (cases "data r")
  case NotJson
  with assms(1) show ?thesis
    by (simp add: create_products_def check_content_type_def get_json_def status_code_def
        HTTP_400_BAD_REQUEST_def)
next
  case (JsonObject d)
  with assms(2) have "p_name d = None" by simp
  then have "\<exists>e. deserialize Product d = Inl e"
    by (simp add: deserialize_def Product_def merge_field_def split: sum.splits)
  then obtain e where e: "deserialize Product d = Inl e" ..
  from deserialize_status [OF e] e JsonObject assms(1) show ?thesis
    by (simp add: create_products_def check_content_type_def get_json_def)
qed

text \<open>
  At the example store: the hammer's payload without its name is answered with 400 and
  nothing is stored.
\<close>

theorem create_products_no_name_witness:
  "headers_get (example_request\<lparr>data := JsonObject (hammer_payload\<lparr>p_name := None\<rparr>)\<rparr>)
      ''Content-Type'' = Some ''application/json''
   \<and> p_name (hammer_payload\<lparr>p_name := None\<rparr>) = None
   \<and> status_code (fst (create_products example_store
        (example_request\<lparr>data := JsonObject (hammer_payload\<lparr>p_name := None\<rparr>)\<rparr>))) = 400
   \<and> snd (create_products example_store
        (example_request\<lparr>data := JsonObject (hammer_payload\<lparr>p_name := None\<rparr>)\<rparr>))
       = example_store"
proof -
  let ?r = "example_request\<lparr>data := JsonObject (hammer_payload\<lparr>p_name := None\<rparr>)\<rparr>"
  have h: "headers_get ?r ''Content-Type'' = Some ''application/json''"
    by code_simp
  have d: "\<forall>d. data ?r = JsonObject d \<longrightarrow> p_name d = None"
    by simp
  note t = create_products_no_name [OF h d, of example_store]
  from h t show ?thesis
    by simp
qed

text \<open>
  C8. For an existing product, a successful PUT /products/id answers 200 with the
  representation of the updated product: its id is the same, each of name, description,
  price, available and category that the payload supplies has the supplied value and the
  others keep theirs; reading the id then finds the updated product, every other id
  finds what it found before, the other rows are unchanged and the sequence is not
  advanced.
\<close>

theorem update_products_overwrites:
  assumes "Product_find s i = Some p"
    and "fst (update_products s i r) = Inr resp"
  shows "\<exists>d p'. data r = JsonObject d
    \<and> resp = \<lparr>status = HTTP_200_OK, body = JsonProduct (serialize p'), headers = []\<rparr>
    \<and> status_code (fst (update_products s i r)) = 200
    \<and> product_id p' = Some i
    \<and> name p' = (case p_name d of None \<Rightarrow> name p | Some v \<Rightarrow> Some v)
    \<and> description p' = (case p_description d of None \<Rightarrow> description p | Some v \<Rightarrow> Some v)
    \<and> price p' = (case p_price d of None \<Rightarrow> price p | Some v \<Rightarrow> Some v)
    \<and> available p' = (case p_available d of None \<Rightarrow> available p | Some v \<Rightarrow> Some v)
    \<and> category p' = (case p_category d of None \<Rightarrow> category p | Some c \<Rightarrow> Category_getitem c)
    \<and> Product_find (snd (update_products s i r)) i = Some p'
    \<and> (\<forall>j. j \<noteq> i \<longrightarrow> Product_find (snd (update_products s i r)) j = Product_find s j)
    \<and> filter (\<lambda>q. product_id q \<noteq> Some i) (rows (snd (update_products s i r)))
        = filter (\<lambda>q. product_id q \<noteq> Some i) (rows s)
    \<and> length (rows (snd (update_products s i r))) = length (rows s)
    \<and> next_id (snd (update_products s i r)) = next_id s"
proof -
  from assms obtain d p' where d: "data r = JsonObject d"
    and p': "deserialize p d = Inr p'"
    and u: "update_products s i r =
      (Inr \<lparr>status = HTTP_200_OK, body = JsonProduct (serialize p'), headers = []\<rparr>,
       Product_update p' s)"
    by (auto simp: update_products_def get_json_def
        split: sum.splits option.splits json_body.splits)
  have pid: "product_id p = Some i"
    using assms(1) by (simp add: Product_find_Some)
  note f = deserialize_fields [OF p']
  have pid': "product_id p' = Some i"
    using f pid by simp
  have rows': "rows (Product_update p' s)
      = map (\<lambda>q. if product_id q = Some i then p' else q) (rows s)"
    by (simp add: Product_update_def pid')
  have same: "Product_find (Product_update p' s) i = Some p'"
    using assms(1) pid' unfolding Product_find_def rows'
    by (rule find_map_replace_same)
  have other: "Product_find (Product_update p' s) j = Product_find s j" if "j \<noteq> i" for j
    using that pid' unfolding Product_find_def rows'
    by (rule find_map_replace_other)
  have rest: "filter (\<lambda>q. product_id q \<noteq> Some i) (rows (Product_update p' s))
      = filter (\<lambda>q. product_id q \<noteq> Some i) (rows s)"
    using pid' unfolding rows' by (rule filter_map_replace_other)
  have resp: "resp = \<lparr>status = HTTP_200_OK, body = JsonProduct (serialize p'), headers = []\<rparr>"
    using assms(2) u by simp
  have st: "status_code (fst (update_products s i r)) = 200"
    by (simp add: u status_code_def HTTP_200_OK_def)
  have nx: "next_id (Product_update p' s) = next_id s"
    "length (rows (Product_update p' s)) = length (rows s)"
    by (simp_all add: Product_update_def)
  show ?thesis
    using d resp st pid' f same other rest nx
    by (intro exI [of _ d] exI [of _ p']) (simp add: u)
qed

text \<open>
  At the example store: an update of the bread that supplies no name keeps the name,
  overwrites the other fields, and leaves the hammer as it was.
\<close>

theorem update_products_overwrites_witness:
  "Product_find example_store 2 = Some bread
   \<and> fst (update_products example_store 2 (example_request\<lparr>data := JsonObject tools_update\<rparr>)) =
       Inr \<lparr>status = 200,
            body = JsonProduct
              \<lparr>rep_id = Some 2, rep_name = Some ''Bread'',
               rep_description = Some ''Updated description'',
               rep_price = Some (Decimal 4250 (- 2)), rep_available = Some True,
               rep_category = Some ''TOOLS''\<rparr>,
            headers = []\<rparr>
   \<and> Product_find
        (snd (update_products example_store 2 (example_request\<lparr>data := JsonObject tools_update\<rparr>)))
        1 = Some hammer"
proof -
  let ?r = "example_request\<lparr>data := JsonObject tools_update\<rparr>"
  have f: "Product_find example_store 2 = Some bread"
    and g: "Product_find example_store 1 = Some hammer"
    by code_simp+
  have u: "fst (update_products example_store 2 ?r) =
       Inr \<lparr>status = 200,
            body = JsonProduct
              \<lparr>rep_id = Some 2, rep_name = Some ''Bread'',
               rep_description = Some ''Updated description'',
               rep_price = Some (Decimal 4250 (- 2)), rep_available = Some True,
               rep_category = Some ''TOOLS''\<rparr>,
            headers = []\<rparr>"
    by code_simp
  from update_products_overwrites [OF f u]
  have "Product_find (snd (update_products example_store 2 ?r)) 1 = Product_find example_store 1"
    by auto
  with f g u show ?thesis
    by simp
qed

text \<open>
  C9. In PUT /products/id the content type is checked before the product is looked up: a
  request whose Content-Type header is absent or is not application/json is answered
  with 415 and storage is unchanged, whether or not the id exists; a 404 answer implies
  the JSON content type and an id that is not stored.
\<close>

theorem update_products_content_type_first:
  "(headers_get r ''Content-Type'' \<noteq> Some ''application/json'' \<longrightarrow>
      fst (update_products s i r) =
        Inl (Abort HTTP_415_UNSUPPORTED_MEDIA_TYPE ''Content-Type must be application/json'')
      \<and> status_code (fst (update_products s i r)) = 415
      \<and> snd (update_products s i r) = s)
   \<and> (status_code (fst (update_products s i r)) = 404 \<longrightarrow>
        headers_get r ''Content-Type'' = Some ''application/json'' \<and> Product_find s i = None)"
proof -
  have a: "fst (update_products s i r) =
        Inl (Abort HTTP_415_UNSUPPORTED_MEDIA_TYPE ''Content-Type must be application/json'')
      \<and> status_code (fst (update_products s i r)) = 415
      \<and> snd (update_products s i r) = s"
    if "headers_get r ''Content-Type'' \<noteq> Some ''application/json''"
    using that
    by (auto simp: update_products_def check_content_type_def status_code_def
        HTTP_415_UNSUPPORTED_MEDIA_TYPE_def split: option.splits)
  have b: "Product_find s i = None" if "status_code (fst (update_products s i r)) = 404"
    using that
    by (auto simp: update_products_def check_content_type_def status_code_def get_json_def
        HTTP_415_UNSUPPORTED_MEDIA_TYPE_def HTTP_400_BAD_REQUEST_def HTTP_200_OK_def
        split: option.splits if_splits sum.splits json_body.splits dest!: deserialize_status)
  show ?thesis
    using a b by fastforce
qed

text \<open>
  At the example store, where id 0 is absent: a PUT with \<open>text/plain\<close> is answered with
  415, one with the JSON content type with 404.
\<close>

theorem update_products_content_type_first_witness:
  "Product_find example_store 0 = None
   \<and> status_code (fst (update_products example_store 0
        (example_request\<lparr>req_headers := [(''Content-Type'', ''text/plain'')]\<rparr>))) = 415
   \<and> status_code (fst (update_products example_store 0
        (example_request\<lparr>data := JsonObject tools_update\<rparr>))) = 404
   \<and> headers_get (example_request\<lparr>data := JsonObject tools_update\<rparr>) ''Content-Type''
       = Some ''application/json''"
proof -
  let ?w = "example_request\<lparr>req_headers := [(''Content-Type'', ''text/plain'')]\<rparr>"
  let ?j = "example_request\<lparr>data := JsonObject tools_update\<rparr>"
  have f: "Product_find example_store 0 = None"
    by code_simp
  have w: "headers_get ?w ''Content-Type'' \<noteq> Some ''application/json''"
    by code_simp
  have j: "status_code (fst (update_products example_store 0 ?j)) = 404"
    by code_simp
  note 1 = update_products_content_type_first [of ?w example_store 0, THEN conjunct1, THEN mp,
      OF w, THEN conjunct2, THEN conjunct1]
  note 2 = update_products_content_type_first [of ?j example_store 0, THEN conjunct2, THEN mp,
      OF j, THEN conjunct1]
  from f 1 j 2 show ?thesis
    by simp
qed

text \<open>
  C10. A GET /products request whose name parameter is the empty string answers as the
  same request without the parameter: with no category or available parameter it lists
  every stored product, not only those whose name is empty. An empty available
  parameter is rejected with 400, storage unchanged.
\<close>

theorem list_products_empty_name:
  "(args_get r ''name'' = Some [] \<longrightarrow>
      list_products s r = list_products s (without_arg ''name'' r)
      \<and> (args_get r ''category'' = None \<and> args_get r ''available'' = None \<longrightarrow>
         list_products s r =
           (Inr \<lparr>status = HTTP_200_OK, body = JsonList (map serialize (rows s)),
                 headers = []\<rparr>, s)))
   \<and> (args_get r ''available'' = Some [] \<longrightarrow>
        status_code (fst (list_products s r)) = HTTP_400_BAD_REQUEST
        \<and> (\<exists>e. fst (list_products s r) = Inl e) \<and> snd (list_products s r) = s)"
proof -
  have a: "list_products s r = list_products s (without_arg ''name'' r)"
    if "args_get r ''name'' = Some []"
    using that
    by (simp add: list_products_eq args_get_without_arg filter_by_name_def truthy_def
        cong: sum.case_cong)
  have b: "list_products s r =
           (Inr \<lparr>status = HTTP_200_OK, body = JsonList (map serialize (rows s)),
                 headers = []\<rparr>, s)"
    if "args_get r ''name'' = Some []" "args_get r ''category'' = None"
      "args_get r ''available'' = None"
    using that
    by (simp add: list_products_eq filter_by_name_def truthy_def filter_by_category_def
        filter_by_available_def)
  have "str_lower (str_strip []) \<notin> set [''true'', ''1'', ''yes'', ''false'', ''0'', ''no'']"
    by (simp add: str_lower_def str_strip_def str_rstrip_def str_lstrip_def)
  then have c: "status_code (fst (list_products s r)) = HTTP_400_BAD_REQUEST
        \<and> (\<exists>e. fst (list_products s r) = Inl e) \<and> snd (list_products s r) = s"
    if "args_get r ''available'' = Some []"
    using that list_products_available_invalid by blast
  show ?thesis
    using a b c by blast
qed

text \<open>
  At the example store: an empty name lists both products, and an empty available
  parameter is answered with 400.
\<close>

theorem list_products_empty_name_witness:
  "args_get (example_request\<lparr>args := [(''name'', [])]\<rparr>) ''name'' = Some []
   \<and> list_products example_store (example_request\<lparr>args := [(''name'', [])]\<rparr>) =
       (Inr \<lparr>status = 200, body = JsonList [serialize hammer, serialize bread], headers = []\<rparr>,
        example_store)
   \<and> args_get (example_request\<lparr>args := [(''available'', [])]\<rparr>) ''available'' = Some []
   \<and> status_code (fst (list_products example_store
        (example_request\<lparr>args := [(''available'', [])]\<rparr>))) = 400"
proof -
  let ?n = "example_request\<lparr>args := [(''name'', [])]\<rparr>"
  let ?a = "example_request\<lparr>args := [(''available'', [])]\<rparr>"
  have n: "args_get ?n ''name'' = Some []" "args_get ?n ''category'' = None"
    "args_get ?n ''available'' = None"
    by code_simp+
  have a: "args_get ?a ''available'' = Some []"
    by code_simp
  have 1: "list_products example_store ?n =
       (Inr \<lparr>status = 200, body = JsonList [serialize hammer, serialize bread], headers = []\<rparr>,
        example_store)"
    using list_products_empty_name [of ?n example_store, THEN conjunct1, THEN mp, OF n(1),
        THEN conjunct2, THEN mp, OF conjI [OF n(2) n(3)]]
    by (simp add: example_rows HTTP_200_OK_def)
  have 2: "status_code (fst (list_products example_store ?a)) = 400"
    using list_products_empty_name [of ?a example_store, THEN conjunct2, THEN mp, OF a,
        THEN conjunct1]
    by (simp add: HTTP_400_BAD_REQUEST_def)
  from n(1) 1 a 2 show ?thesis
    by simp
qed

end
